theory Spec2Isabelle
  imports Main "HOL-Library.AList"
begin

section \<open>Values, thrown errors and functions\<close>

text \<open>
  The library is untyped at run time: actors, entities, attributes, contexts and handler
  results are arbitrary JavaScript values. \<open>jsval\<close> gives the values that carry no
  functions. \<open>Obj\<close> is a plain data object, compared by its contents; \<open>Ref\<close> is an
  object taken by reference: two such values are equal exactly when they are the same
  object. Numbers are the integral ones. A pending value (a \<open>Promise\<close>) is a value like
  any other: the library never looks inside one.
\<close>

datatype jsval =
    Undefined
  | Null
  | Bool bool
  | Num int
  | Str string
  | Obj "(string \<times> jsval) list"
  | Ref nat
  | Promise jsval
  | RejectedPromise jsval

text \<open>The \<open>typeof\<close> operator on these values.\<close>

fun typeof :: "jsval \<Rightarrow> string" where
  "typeof Undefined = ''undefined''"
| "typeof Null = ''object''"
| "typeof (Bool b) = ''boolean''"
| "typeof (Num n) = ''number''"
| "typeof (Str s) = ''string''"
| "typeof (Obj fs) = ''object''"
| "typeof (Ref a) = ''object''"
| "typeof (Promise v) = ''object''"
| "typeof (RejectedPromise v) = ''object''"

text \<open>
  A parameter that the caller left out reads as \<open>undefined\<close>. An optional parameter is
  a \<open>jsval option\<close>: \<open>None\<close> when the call site has no argument at that position,
  \<open>Some v\<close> when it has one (\<open>Some Undefined\<close> is an explicit \<open>undefined\<close>).
\<close>

fun param :: "jsval option \<Rightarrow> jsval" where
  "param None = Undefined"
| "param (Some v) = v"

text \<open>
  What a call can throw: \<open>Error msg\<close> is \<open>new Error(msg)\<close>, the only error the library
  itself creates; \<open>TypeError\<close> is the engine's error for calling something that is not a
  function and for assigning to a property that cannot be assigned; \<open>Raised v\<close> is
  whatever a handler throws.
\<close>

datatype thrown = Error string | TypeError | Raised jsval

text \<open>
  Handlers are caller code. The library calls a handler as a method of the \<open>handlers\<close>
  object it is stored in: \<open>run h this arg w\<close> is the call with \<open>this\<close> the address of
  that object, \<open>arg\<close> the one argument and \<open>w\<close> the caller's world. The handler returns
  or throws, leaves a new world, and may write to handler objects, which the caller shares
  with the library: \<open>(a, k, Some h')\<close> defines or overwrites the own property \<open>k\<close> of
  the object at address \<open>a\<close> with the function \<open>h'\<close>, \<open>(a, k, None)\<close> deletes it.
  What a handler reads it reads from its argument and from the world.
\<close>

datatype 'w ActionHandler =
  Handler (run: "nat \<Rightarrow> jsval \<Rightarrow> 'w \<Rightarrow>
                  (thrown + jsval) \<times> 'w \<times> (nat \<times> string \<times> 'w ActionHandler option) list")

section \<open>Handler mappings and permission definitions\<close>

text \<open>
  \<open>ActionMap\<close> is a \<open>handlers\<close> object. \<open>own\<close> lists its own enumerable properties
  in the order of \<open>Object.keys\<close>; \<open>inherited\<close> lists the properties it reaches through
  its prototype chain, which the \<open>in\<close> operator and a property read consult as well.
\<close>

datatype 'w property = Callable "'w ActionHandler" | NotCallable

record 'w ActionMap =
  own :: "(string \<times> 'w ActionHandler) list"
  inherited :: "(string \<times> 'w property) list"

definition Object_keys :: "'w ActionMap \<Rightarrow> string list" where
  "Object_keys hs = map fst (own hs)"

definition read_property :: "'w ActionMap \<Rightarrow> string \<Rightarrow> 'w property option" where
  "read_property hs k =
     (case map_of (own hs) k of
        Some h \<Rightarrow> Some (Callable h)
      | None \<Rightarrow> map_of (inherited hs) k)"

text \<open>\<open>k in hs\<close>: own or inherited.\<close>

definition has_property :: "'w ActionMap \<Rightarrow> string \<Rightarrow> bool" where
  "has_property hs k = (read_property hs k \<noteq> None)"

text \<open>
  An object literal inherits from \<open>Object.prototype\<close>. Its \<open>toString\<close>, called on a plain
  object, returns \<open>[object Object]\<close> whatever the argument; its \<open>__proto__\<close> is an
  accessor whose value is \<open>Object.prototype\<close> itself, not a function. The other built-in
  functions are taken as a parameter \<open>natives\<close>.
\<close>

definition Object_prototype_toString :: "'w ActionHandler" where
  "Object_prototype_toString = Handler (\<lambda>this arg w. (Inr (Str ''[object Object]''), w, []))"

definition Object_prototype :: "(string \<Rightarrow> 'w ActionHandler) \<Rightarrow> (string \<times> 'w property) list" where
  "Object_prototype natives =
     [(''constructor'', Callable (natives ''constructor'')),
      (''__defineGetter__'', Callable (natives ''__defineGetter__'')),
      (''__defineSetter__'', Callable (natives ''__defineSetter__'')),
      (''hasOwnProperty'', Callable (natives ''hasOwnProperty'')),
      (''__lookupGetter__'', Callable (natives ''__lookupGetter__'')),
      (''__lookupSetter__'', Callable (natives ''__lookupSetter__'')),
      (''isPrototypeOf'', Callable (natives ''isPrototypeOf'')),
      (''propertyIsEnumerable'', Callable (natives ''propertyIsEnumerable'')),
      (''toString'', Callable Object_prototype_toString),
      (''valueOf'', Callable (natives ''valueOf'')),
      (''__proto__'', NotCallable),
      (''toLocaleString'', Callable (natives ''toLocaleString''))]"

definition object_literal ::
  "(string \<Rightarrow> 'w ActionHandler) \<Rightarrow> (string \<times> 'w ActionHandler) list \<Rightarrow> 'w ActionMap" where
  "object_literal natives ps = \<lparr>own = ps, inherited = Object_prototype natives\<rparr>"

text \<open>
  A definition holds its \<open>handlers\<close> object by reference: the field is the address of
  the object, and \<open>createPermissionDefinition\<close> copies nothing.
\<close>

record PermissionDefinition =
  resource :: string
  handlers :: nat

definition createPermissionDefinition :: "string \<Rightarrow> nat \<Rightarrow> PermissionDefinition" where
  "createPermissionDefinition r hs = \<lparr>resource = r, handlers = hs\<rparr>"

section \<open>The state\<close>

text \<open>
  \<open>defs\<close> is the \<open>Map\<close> that \<open>createPermissions\<close> fills and that \<open>get\<close> and \<open>can\<close>
  close over; no caller code reaches it. \<open>heap\<close> holds the handler objects by address;
  \<open>world\<close> is the rest of the caller's state. The two fields of a definition object are
  not reassigned.
\<close>

record 'w state =
  defs :: "string \<rightharpoonup> PermissionDefinition"
  heap :: "nat \<Rightarrow> 'w ActionMap"
  world :: 'w

definition createPermissions ::
  "PermissionDefinition list option \<Rightarrow> (nat \<Rightarrow> 'w ActionMap) \<Rightarrow> 'w \<Rightarrow> 'w state" where
  "createPermissions initialDefs hp w =
     \<lparr>defs = (case initialDefs of
                None \<Rightarrow> Map.empty
              | Some ds \<Rightarrow> fold (\<lambda>def m. m(resource def \<mapsto> def)) ds Map.empty),
      heap = hp, world = w\<rparr>"

text \<open>One write of a handler, and the call \<open>hs[k](arg)\<close> on the object at address \<open>a\<close>.\<close>

fun write_own ::
  "nat \<times> string \<times> 'w ActionHandler option \<Rightarrow> (nat \<Rightarrow> 'w ActionMap) \<Rightarrow> (nat \<Rightarrow> 'w ActionMap)" where
  "write_own (a, k, Some h) hp = hp(a := (hp a)\<lparr>own := AList.update k h (own (hp a))\<rparr>)"
| "write_own (a, k, None) hp = hp(a := (hp a)\<lparr>own := AList.delete k (own (hp a))\<rparr>)"

definition call_property ::
  "nat \<Rightarrow> string \<Rightarrow> jsval \<Rightarrow> 'w state \<Rightarrow> (thrown + jsval) \<times> 'w state" where
  "call_property a k arg s =
     (case read_property (heap s a) k of
        Some (Callable h) \<Rightarrow>
          (case run h a arg (world s) of
             (out, w', ws) \<Rightarrow> (out, s\<lparr>heap := fold write_own ws (heap s), world := w'\<rparr>))
      | Some NotCallable \<Rightarrow> (Inl TypeError, s)
      | None \<Rightarrow> (Inl TypeError, s))"

section \<open>Objects synthesized by the dispatcher\<close>

text \<open>
  \<open>get(r).can(actor)\<close> and the two-argument \<open>can\<close> start from \<open>{}\<close> and store one
  function per key with \<open>obj[key] = f\<close>, in strict code. On such an object the
  assignment defines or overwrites an own property, with two exceptions. For the key
  \<open>__proto__\<close> it runs the inherited setter and makes \<open>f\<close> the prototype of the object.
  Once a function is the prototype, the object inherits the function's read-only \<open>name\<close>
  and \<open>length\<close> and the throwing setters \<open>caller\<close> and \<open>arguments\<close> of
  \<open>Function.prototype\<close>: assigning a new property of one of these names throws a
  \<open>TypeError\<close>. \<open>members\<close> are the own properties, \<open>proto\<close> is the function installed
  as prototype, if any.
\<close>

record 'f js_object =
  members :: "(string \<times> 'f) list"
  proto :: "'f option"

definition empty_object :: "'f js_object" where
  "empty_object = \<lparr>members = [], proto = None\<rparr>"

definition unassignable_below_function :: "string list" where
  "unassignable_below_function = [''name'', ''length'', ''caller'', ''arguments'']"

definition assign :: "string \<Rightarrow> 'f \<Rightarrow> 'f js_object \<Rightarrow> thrown + 'f js_object" where
  "assign k f obj =
     (if k = ''__proto__'' then Inr (obj\<lparr>proto := Some f\<rparr>)
      else if proto obj \<noteq> None \<and> k \<in> set unassignable_below_function \<and>
              map_of (members obj) k = None
      then Inl TypeError
      else Inr (obj\<lparr>members := AList.update k f (members obj)\<rparr>))"

text \<open>The loop \<open>for (const k of ks) obj[k] = F(k)\<close>; a throw ends it.\<close>

fun store_all :: "(string \<Rightarrow> 'f) \<Rightarrow> string list \<Rightarrow> 'f js_object \<Rightarrow> thrown + 'f js_object" where
  "store_all F [] obj = Inr obj"
| "store_all F (k # ks) obj =
     (case assign k (F k) obj of
        Inl e \<Rightarrow> Inl e
      | Inr obj' \<Rightarrow> store_all F ks obj')"

text \<open>
  \<open>storable ks\<close>: the loop over the keys \<open>ks\<close> runs to its end. It does unless a key
  \<open>name\<close>, \<open>length\<close>, \<open>caller\<close> or \<open>arguments\<close> comes after a key \<open>__proto__\<close>.
\<close>

definition storable :: "string list \<Rightarrow> bool" where
  "storable ks = (\<not> isl (store_all (\<lambda>k. ()) ks empty_object))"

definition shape :: "'f js_object \<Rightarrow> unit js_object" where
  "shape obj =
     \<lparr>members = map (\<lambda>(k, f). (k, ())) (members obj), proto = map_option (\<lambda>f. ()) (proto obj)\<rparr>"

text \<open>
  \<open>member obj k\<close> is the function that the loop stored under \<open>k\<close> and that \<open>obj[k]\<close>
  reads back (for \<open>__proto__\<close> through the inherited getter). \<open>None\<close> means that the
  loop stored nothing under \<open>k\<close>.
\<close>

definition member :: "'f js_object \<Rightarrow> string \<Rightarrow> 'f option" where
  "member obj k = (if k = ''__proto__'' then proto obj else map_of (members obj) k)"

type_synonym 'w ActionMethod =
  "jsval option \<Rightarrow> jsval option \<Rightarrow> 'w state \<Rightarrow> (thrown + jsval) \<times> 'w state"
type_synonym 'w ActionInvoker = "'w ActionMethod js_object"
type_synonym 'w ResourceAccessor = "jsval \<Rightarrow> 'w state \<Rightarrow> thrown + 'w ActionInvoker"

type_synonym 'w ActionThunk = "'w state \<Rightarrow> (thrown + jsval) \<times> 'w state"
type_synonym 'w ActionObject = "'w ActionThunk js_object"

section \<open>The two operations\<close>

definition unknown_resource :: "string \<Rightarrow> thrown" where
  "unknown_resource r = Error (''No permission definition for resource: '' @ r)"

definition unknown_action :: "string \<Rightarrow> string \<Rightarrow> thrown" where
  "unknown_action action r =
     Error (''No handler for action '' @ [CHR 0x27] @ action @ [CHR 0x27]
            @ '' on resource '' @ [CHR 0x27] @ r @ [CHR 0x27])"

text \<open>
  The accessor \<open>can\<close> that \<open>get\<close> builds for a definition. It closes over \<open>def\<close>; the
  keys are read when the accessor is called, and each method reads \<open>def.handlers[action]\<close>
  when it is called. The accessor itself changes nothing.
\<close>

definition get_can :: "PermissionDefinition \<Rightarrow> 'w ResourceAccessor" where
  "get_can def actor s =
     store_all
       (\<lambda>action entity attributes.
          call_property (handlers def) action
            (Obj [(''actor'', actor), (''entity'', param entity),
                  (''attributes'', param attributes)]))
       (Object_keys (heap s (handlers def))) empty_object"

text \<open>\<open>get(resource)\<close>; the result stands for the object \<open>{ can }\<close>.\<close>

definition get :: "string \<Rightarrow> 'w state \<Rightarrow> (thrown + 'w ResourceAccessor) \<times> 'w state" where
  "get r s =
     (case defs s r of
        None \<Rightarrow> (Inl (unknown_resource r), s)
      | Some def \<Rightarrow> (Inr (get_can def), s))"

text \<open>
  \<open>can\<close> returns either what a handler returned or the object of zero-argument
  functions. In the definition of \<open>can\<close> the inner \<open>case\<close> only names the string
  that \<open>typeof\<close> has just found; its last branch is never taken.
\<close>

datatype 'w can_result = Value jsval | Actions "'w ActionObject"

definition can_batch :: "PermissionDefinition \<Rightarrow> jsval \<Rightarrow> 'w state \<Rightarrow> thrown + 'w ActionObject" where
  "can_batch def actionOrCtx s =
     store_all (\<lambda>action. call_property (handlers def) action actionOrCtx)
       (Object_keys (heap s (handlers def))) empty_object"

definition can ::
  "string \<Rightarrow> jsval \<Rightarrow> jsval option \<Rightarrow> 'w state \<Rightarrow> (thrown + 'w can_result) \<times> 'w state" where
  "can r actionOrCtx ctx s =
     (case defs s r of
        None \<Rightarrow> (Inl (unknown_resource r), s)
      | Some def \<Rightarrow>
          if typeof actionOrCtx = ''string'' \<and> param ctx \<noteq> Undefined then
            (case actionOrCtx of
               Str action \<Rightarrow>
                 if \<not> has_property (heap s (handlers def)) action
                 then (Inl (unknown_action action r), s)
                 else (case call_property (handlers def) action (param ctx) s of
                         (out, s') \<Rightarrow> (map_sum id Value out, s'))
             | _ \<Rightarrow> (map_sum id Actions (can_batch def actionOrCtx s), s))
          else (map_sum id Actions (can_batch def actionOrCtx s), s))"

section \<open>Sequences of calls on the public surface\<close>

text \<open>
  Everything a caller can do with the object that \<open>createPermissions\<close> returned:
  \<open>get(r)\<close>, \<open>get(r).can(actor)\<close>, \<open>get(r).can(actor)[k](entity, attributes)\<close>,
  \<open>can(r, x)\<close> and \<open>can(r, x, c)\<close>, and \<open>can(...)[k]()\<close> on the object a
  two-argument-shaped call returned. \<open>exec\<close> gives the state after the call; a call
  that throws, or that names no synthesized function, ends there.
\<close>

datatype call =
    Get string
  | GetCan string jsval
  | GetCanAction string jsval string "jsval option" "jsval option"
  | Can string jsval "jsval option"
  | CanAction string jsval "jsval option" string






section \<open>Example definitions\<close>

text \<open>
  The world of the examples is a counter of handler invocations. \<open>read_field v k\<close> is the
  field \<open>k\<close> of an object value, and \<open>undefined\<close> when the field is absent or the value
  is not an object (the read \<open>v?.k\<close> of a data field).
\<close>

fun read_field :: "jsval \<Rightarrow> string \<Rightarrow> jsval" where
  "read_field (Obj fs) k = (case map_of fs k of Some v \<Rightarrow> v | None \<Rightarrow> Undefined)"
| "read_field _ k = Undefined"

text \<open>\<open>create\<close> permits an actor whose \<open>role\<close> is \<open>"admin"\<close>.\<close>

definition post_create :: "nat ActionHandler" where
  "post_create =
     Handler (\<lambda>this args n.
       (Inr (Bool (read_field (read_field args ''actor'') ''role'' = Str ''admin'')), Suc n, []))"

text \<open>\<open>edit\<close> permits an actor whose \<open>id\<close> is the \<open>authorId\<close> of the entity.\<close>

definition post_edit :: "nat ActionHandler" where
  "post_edit =
     Handler (\<lambda>this args n.
       (Inr (Bool (read_field (read_field args ''actor'') ''id''
                   = read_field (read_field args ''entity'') ''authorId'')),
        Suc n, []))"

text \<open>\<open>publish\<close> is asynchronous: it returns a pending \<open>true\<close>.\<close>

definition post_publish :: "nat ActionHandler" where
  "post_publish = Handler (\<lambda>this args n. (Inr (Promise (Bool True)), Suc n, []))"

text \<open>The examples never reach the built-in functions taken as a parameter.\<close>

definition example_natives :: "string \<Rightarrow> nat ActionHandler" where
  "example_natives name = Handler (\<lambda>this args n. (Inr Undefined, n, []))"

definition deny :: "nat ActionHandler" where
  "deny = Handler (\<lambda>this args n. (Inr (Bool False), Suc n, []))"

definition permit :: "nat ActionHandler" where
  "permit = Handler (\<lambda>this args n. (Inr (Bool True), Suc n, []))"

text \<open>Handlers that return something other than a boolean.\<close>

definition returnsUndefined :: "nat ActionHandler" where
  "returnsUndefined = Handler (\<lambda>this args n. (Inr Undefined, Suc n, []))"

definition returnsNull :: "nat ActionHandler" where
  "returnsNull = Handler (\<lambda>this args n. (Inr Null, Suc n, []))"

definition returnsZero :: "nat ActionHandler" where
  "returnsZero = Handler (\<lambda>this args n. (Inr (Num 0), Suc n, []))"

definition returnsEmptyString :: "nat ActionHandler" where
  "returnsEmptyString = Handler (\<lambda>this args n. (Inr (Str []), Suc n, []))"

definition returnsObject :: "nat ActionHandler" where
  "returnsObject = Handler (\<lambda>this args n. (Inr (Obj [(''result'', Bool True)]), Suc n, []))"

text \<open>\<open>returnsSame\<close> returns one and the same object at every call.\<close>

definition returnsSame :: "nat ActionHandler" where
  "returnsSame = Handler (\<lambda>this args n. (Inr (Ref 7), Suc n, []))"

text \<open>
  \<open>grow\<close> is written as a method: \<open>grow() { this.extra = () => true; return true }\<close>.
\<close>

definition grow :: "nat ActionHandler" where
  "grow = Handler (\<lambda>this args n. (Inr (Bool True), Suc n, [(this, ''extra'', Some permit)]))"

text \<open>
  The handler objects of the examples, by address. The object at address \<open>4\<close> has the
  own keys \<open>__proto__\<close> and \<open>name\<close>, as \<open>{ ["__proto__"]: f, name: f }\<close> has.
\<close>

definition example_heap :: "nat \<Rightarrow> nat ActionMap" where
  "example_heap =
     (\<lambda>a. object_literal example_natives [])
     (0 := object_literal example_natives [(''create'', deny), (''remove'', deny)],
      1 := object_literal example_natives
             [(''create'', post_create), (''edit'', post_edit), (''publish'', post_publish)],
      2 := object_literal example_natives [(''create'', deny)],
      3 := object_literal example_natives
             [(''returnsUndefined'', returnsUndefined), (''returnsNull'', returnsNull),
              (''returnsZero'', returnsZero), (''returnsEmptyString'', returnsEmptyString),
              (''returnsObject'', returnsObject), (''returnsSame'', returnsSame)],
      4 := object_literal example_natives [(''__proto__'', permit), (''name'', permit)],
      5 := object_literal example_natives [(''grow'', grow)])"

text \<open>An earlier definition of the resource \<open>post\<close>, with other handlers.\<close>

definition old_post_def :: PermissionDefinition where
  "old_post_def = createPermissionDefinition ''post'' 0"

definition post_def :: PermissionDefinition where
  "post_def = createPermissionDefinition ''post'' 1"

definition comment_def :: PermissionDefinition where
  "comment_def = createPermissionDefinition ''comment'' 2"

definition edge_def :: PermissionDefinition where
  "edge_def = createPermissionDefinition ''edge-returns'' 3"

definition odd_def :: PermissionDefinition where
  "odd_def = createPermissionDefinition ''odd'' 4"

definition growing_def :: PermissionDefinition where
  "growing_def = createPermissionDefinition ''growing'' 5"

definition example_state :: "nat state" where
  "example_state =
     createPermissions (Some [old_post_def, comment_def, post_def, edge_def]) example_heap 0"

definition odd_state :: "nat state" where
  "odd_state = createPermissions (Some [odd_def]) example_heap 0"

definition growing_state :: "nat state" where
  "growing_state = createPermissions (Some [growing_def]) example_heap 0"

definition admin :: jsval where
  "admin = Obj [(''id'', Str ''2''), (''role'', Str ''admin'')]"



section \<open>Facts about the synthesized objects\<close>

lemma member_assign:
  "assign k' f obj = Inr obj' \<Longrightarrow> member obj' k = (if k = k' then Some f else member obj k)"
  by (auto simp add: member_def assign_def AList.update_conv' split: if_splits)

lemma member_store_all:
  "store_all F ks obj0 = Inr obj \<Longrightarrow>
   member obj k = (if k \<in> set ks then Some (F k) else member obj0 k)"
proof (induction ks arbitrary: obj0)
  case Nil
  then show ?case by simp
next
  case (Cons k' ks)
  then obtain obj1 where a: "assign k' (F k') obj0 = Inr obj1"
    and r: "store_all F ks obj1 = Inr obj"
    by (auto split: sum.splits)
  from Cons.IH [OF r] member_assign [OF a, of k] show ?case by auto
qed

lemma member_empty_object: "member empty_object k = None"
  by (simp add: member_def empty_object_def)



text \<open>Whether the loop runs to its end depends on the keys alone.\<close>

lemma update_shape:
  "map (\<lambda>(k, f). (k, ())) (AList.update k v al) = AList.update k () (map (\<lambda>(k, f). (k, ())) al)"
  by (induction al) auto

lemma map_of_shape:
  "(map_of (map (\<lambda>(k, f). (k, ())) al) k = None) = (map_of al k = None)"
  by (induction al) auto

lemma assign_shape: "map_sum id shape (assign k f obj) = assign k () (shape obj)"
  by (cases "proto obj") (simp_all add: assign_def shape_def update_shape map_of_shape)

lemma store_all_shape:
  "map_sum id shape (store_all F ks obj) = store_all (\<lambda>k. ()) ks (shape obj)"
proof (induction ks arbitrary: obj)
  case Nil
  then show ?case by simp
next
  case (Cons k ks)
  show ?case
  proof (cases "assign k (F k) obj")
    case (Inl e)
    with assign_shape [of k "F k" obj, symmetric] show ?thesis by simp
  next
    case (Inr obj')
    with assign_shape [of k "F k" obj, symmetric] Cons.IH [of obj'] show ?thesis by simp
  qed
qed

lemma storable_store_all: "storable ks \<Longrightarrow> \<exists>obj. store_all F ks empty_object = Inr obj"
proof -
  assume "storable ks"
  moreover have "shape (empty_object :: 'a js_object) = empty_object"
    by (simp add: shape_def empty_object_def)
  ultimately have "\<not> isl (map_sum id shape (store_all F ks (empty_object :: 'a js_object)))"
    by (simp add: storable_def store_all_shape)
  then show ?thesis by (cases "store_all F ks (empty_object :: 'a js_object)") simp_all
qed

lemma store_all_storable: "store_all F ks empty_object = Inr obj \<Longrightarrow> storable ks"
proof -
  assume a: "store_all F ks empty_object = Inr obj"
  have "shape (empty_object :: 'a js_object) = empty_object"
    by (simp add: shape_def empty_object_def)
  with store_all_shape [of F ks empty_object, symmetric] a show ?thesis
    by (simp add: storable_def)
qed

lemma store_all_without_proto:
  "''__proto__'' \<notin> set ks \<Longrightarrow> proto obj = None \<Longrightarrow> \<exists>obj'. store_all F ks obj = Inr obj'"
proof (induction ks arbitrary: obj)
  case Nil
  then show ?case by simp
next
  case (Cons k ks)
  then have "assign k (F k) obj = Inr (obj\<lparr>members := AList.update k (F k) (members obj)\<rparr>)"
    by (auto simp add: assign_def)
  moreover have "proto (obj\<lparr>members := AList.update k (F k) (members obj)\<rparr>) = None"
    using Cons.prems by simp
  ultimately show ?case using Cons.IH Cons.prems by simp
qed

lemma storable_without_proto: "''__proto__'' \<notin> set ks \<Longrightarrow> storable ks"
  using store_all_without_proto [of ks empty_object "\<lambda>k. ()"]
  by (auto simp add: storable_def empty_object_def)

section \<open>Facts about property lookup and handler calls\<close>

lemma map_of_own_key: "map_of (own hs) k = Some h \<Longrightarrow> k \<in> set (Object_keys hs)"
  by (auto simp add: Object_keys_def dest: map_of_SomeD intro: rev_image_eqI)

lemma own_has_property: "k \<in> set (Object_keys hs) \<Longrightarrow> has_property hs k"
  by (auto simp add: Object_keys_def has_property_def read_property_def map_of_eq_None_iff
      split: option.splits)

lemma call_property_own:
  "map_of (own (heap s a)) k = Some h \<Longrightarrow>
   call_property a k arg s =
     (case run h a arg (world s) of
        (out, w', ws) \<Rightarrow> (out, s\<lparr>heap := fold write_own ws (heap s), world := w'\<rparr>))"
  by (simp add: call_property_def read_property_def)




section \<open>Facts about \<open>get\<close> and \<open>can\<close>\<close>

lemma get_registered: "defs s r = Some def \<Longrightarrow> get r s = (Inr (get_can def), s)"
  by (simp add: get_def)

lemma member_get_can:
  "get_can def actor s = Inr invoker \<Longrightarrow>
   member invoker k =
     (if k \<in> set (Object_keys (heap s (handlers def)))
      then Some (\<lambda>entity attributes.
                   call_property (handlers def) k
                     (Obj [(''actor'', actor), (''entity'', param entity),
                           (''attributes'', param attributes)]))
      else None)"
  unfolding get_can_def by (simp add: member_store_all member_empty_object)

lemma get_can_storable:
  "storable (Object_keys (heap s (handlers def))) \<Longrightarrow> \<exists>invoker. get_can def actor s = Inr invoker"
  unfolding get_can_def by (rule storable_store_all)

lemma member_can_batch:
  "can_batch def x s = Inr obj \<Longrightarrow>
   member obj k =
     (if k \<in> set (Object_keys (heap s (handlers def)))
      then Some (call_property (handlers def) k x) else None)"
  unfolding can_batch_def by (simp add: member_store_all member_empty_object)

lemma can_batch_storable:
  "storable (Object_keys (heap s (handlers def))) \<Longrightarrow> \<exists>obj. can_batch def x s = Inr obj"
  unfolding can_batch_def by (rule storable_store_all)

lemma can_two_arguments:
  "defs s r = Some def \<Longrightarrow> can r x None s = (map_sum id Actions (can_batch def x s), s)"
  by (simp add: can_def split: jsval.splits)

lemma can_single_action:
  "defs s r = Some def \<Longrightarrow> has_property (heap s (handlers def)) action \<Longrightarrow> c \<noteq> Undefined \<Longrightarrow>
   can r (Str action) (Some c) s =
     (case call_property (handlers def) action c s of (out, s') \<Rightarrow> (map_sum id Value out, s'))"
  by (simp add: can_def)

text \<open>
  A name that the \<open>in\<close> test does not find, neither among the own properties nor along
  the prototype chain, is rejected.
\<close>

lemma can_unknown_action:
  "defs s r = Some def \<Longrightarrow> \<not> has_property (heap s (handlers def)) action \<Longrightarrow> c \<noteq> Undefined \<Longrightarrow>
   can r (Str action) (Some c) s = (Inl (unknown_action action r), s)"
  by (simp add: can_def)

lemma can_batch_shape:
  "defs s r = Some def \<Longrightarrow>
   \<not> ((\<exists>action. x = Str action) \<and> c \<noteq> None \<and> c \<noteq> Some Undefined) \<Longrightarrow>
   can r x c s = (map_sum id Actions (can_batch def x s), s)"
  by (cases x; cases c) (auto simp add: can_def)

lemma can_depends_on_entry:
  "defs s r = defs s' r \<Longrightarrow> heap s = heap s' \<Longrightarrow> world s = world s' \<Longrightarrow>
   fst (can r x c s) = fst (can r x c s') \<and>
   heap (snd (can r x c s)) = heap (snd (can r x c s')) \<and>
   world (snd (can r x c s)) = world (snd (can r x c s'))"
  by (auto simp add: can_def can_batch_def call_property_def
      split: option.splits jsval.splits prod.splits property.splits)

section \<open>Facts about the registry\<close>

lemma fold_set_other:
  "\<forall>d \<in> set ds. resource d \<noteq> r \<Longrightarrow>
   fold (\<lambda>def m. m(resource def \<mapsto> def)) ds m r = m r"
  by (induction ds arbitrary: m) auto


text \<open>
  A call on the public surface either leaves the state as it is or ends in one call of a
  property of the handler object of a registered definition.
\<close>

lemma can_single_cases:
  assumes "defs s r = Some def" and "c \<noteq> Undefined"
  shows "can r (Str action) (Some c) s = (Inl (unknown_action action r), s) \<or>
         (\<exists>out. can r (Str action) (Some c) s =
            (map_sum id Value out, snd (call_property (handlers def) action c s)))"
proof (cases "has_property (heap s (handlers def)) action")
  case True
  with assms show ?thesis
    by (cases "call_property (handlers def) action c s") (auto simp add: can_single_action)
next
  case False
  with assms show ?thesis by (simp add: can_unknown_action)
qed


lemma can_Actions:
  assumes "can r x c s = (Inr (Actions obj), s')"
  shows "\<exists>def. defs s r = Some def \<and> can_batch def x s = Inr obj \<and> s' = s"
proof (cases "defs s r")
  case None
  with assms show ?thesis by (simp add: can_def)
next
  case (Some def)
  show ?thesis
  proof (cases "(\<exists>action. x = Str action) \<and> c \<noteq> None \<and> c \<noteq> Some Undefined")
    case True
    then obtain action v where xc: "x = Str action" "c = Some v" "v \<noteq> Undefined" by auto
    from can_single_cases [OF Some xc(3), of action]
    consider "can r (Str action) (Some v) s = (Inl (unknown_action action r), s)"
      | out where "can r (Str action) (Some v) s =
          (map_sum id Value out, snd (call_property (handlers def) action v s))"
      by blast
    then show ?thesis
    proof cases
      case 1
      with xc assms show ?thesis by simp
    next
      case 2
      with xc assms show ?thesis by (cases out) simp_all
    qed
  next
    case False
    with Some assms show ?thesis
      by (cases "can_batch def x s") (simp_all add: can_batch_shape)
  qed
qed










section \<open>Facts about the examples\<close>

lemmas example_defs =
  example_state_def odd_state_def growing_state_def createPermissions_def
  createPermissionDefinition_def post_def_def old_post_def_def comment_def_def edge_def_def
  odd_def_def growing_def_def

lemma example_post: "defs example_state ''post'' = Some post_def"
  by (simp add: example_defs)

lemma example_edge: "defs example_state ''edge-returns'' = Some edge_def"
  by (simp add: example_defs)

lemma example_missing: "defs example_state ''missing'' = None"
  by (simp add: example_defs)

lemma example_world: "world example_state = 0"
  by (simp add: example_defs)

lemma own_post_def:
  "own (heap example_state (handlers post_def)) =
     [(''create'', post_create), (''edit'', post_edit), (''publish'', post_publish)]"
  by (simp add: example_defs example_heap_def object_literal_def)

lemma inherited_post_def:
  "inherited (heap example_state (handlers post_def)) = Object_prototype example_natives"
  by (simp add: example_defs example_heap_def object_literal_def)

lemma own_edge_def:
  "own (heap example_state (handlers edge_def)) =
     [(''returnsUndefined'', returnsUndefined), (''returnsNull'', returnsNull),
      (''returnsZero'', returnsZero), (''returnsEmptyString'', returnsEmptyString),
      (''returnsObject'', returnsObject), (''returnsSame'', returnsSame)]"
  by (simp add: example_defs example_heap_def object_literal_def)



lemma own_odd_def:
  "own (heap odd_state (handlers odd_def)) = [(''__proto__'', permit), (''name'', permit)]"
  by (simp add: example_defs example_heap_def object_literal_def)

lemma example_growing: "defs growing_state ''growing'' = Some growing_def"
  by (simp add: example_defs)

lemma storable_post: "storable (Object_keys (heap example_state (handlers post_def)))"
  by (simp add: Object_keys_def own_post_def storable_def assign_def empty_object_def)

lemma storable_edge: "storable (Object_keys (heap example_state (handlers edge_def)))"
  by (simp add: Object_keys_def own_edge_def storable_def assign_def empty_object_def)

lemma not_storable_odd: "\<not> storable (Object_keys (heap odd_state (handlers odd_def)))"
  by (simp add: Object_keys_def own_odd_def storable_def assign_def empty_object_def
      unassignable_below_function_def)

section \<open>The three dispatch paths\<close>




section \<open>Selecting the call shape\<close>

text \<open>
  C2, as amended. For a registered resource, \<open>can(r, x, c)\<close> takes the single-action
  shape exactly when \<open>x\<close> is a string and the third argument is not \<open>undefined\<close>: an
  omitted third argument and an explicit \<open>undefined\<close> are treated alike, while \<open>null\<close>
  and the other falsy values count as supplied. In the single-action shape the call
  returns no action object: it throws the unknown-action error when \<open>x in handlers\<close>
  is false, and otherwise is the call \<open>handlers[x](c)\<close>, for an own handler the handler's
  outcome on \<open>c\<close>. Every other combination is the call \<open>can(r, x)\<close>: it builds the
  action object from the action names, each function being \<open>handlers[k](x)\<close> with \<open>x\<close>
  itself as the context, and returns it when the names can all be stored.
\<close>

theorem can_shape:
  assumes "defs s r = Some def"
  shows "(\<forall>action v. x = Str action \<and> c = Some v \<and> v \<noteq> Undefined \<longrightarrow>
            (\<forall>obj. fst (can r x c s) \<noteq> Inr (Actions obj)) \<and>
            can r x c s =
              (if has_property (heap s (handlers def)) action
               then (case call_property (handlers def) action v s of
                       (out, s') \<Rightarrow> (map_sum id Value out, s'))
               else (Inl (unknown_action action r), s)) \<and>
            (\<forall>h. map_of (own (heap s (handlers def))) action = Some h \<longrightarrow>
               can r x c s =
                 (case run h (handlers def) v (world s) of
                    (out, w', ws) \<Rightarrow>
                      (map_sum id Value out,
                       s\<lparr>heap := fold write_own ws (heap s), world := w'\<rparr>)))) \<and>
         (\<not> ((\<exists>action. x = Str action) \<and> c \<noteq> None \<and> c \<noteq> Some Undefined) \<longrightarrow>
            can r x c s = can r x None s \<and>
            can r x None s = (map_sum id Actions (can_batch def x s), s) \<and>
            (\<forall>obj k f. can_batch def x s = Inr obj \<and> member obj k = Some f \<longrightarrow>
               k \<in> set (Object_keys (heap s (handlers def))) \<and>
               f = call_property (handlers def) k x \<and>
               (\<forall>h. map_of (own (heap s (handlers def))) k = Some h \<longrightarrow>
                  f s = (case run h (handlers def) x (world s) of
                           (out, w', ws) \<Rightarrow>
                             (out, s\<lparr>heap := fold write_own ws (heap s), world := w'\<rparr>)))) \<and>
            (storable (Object_keys (heap s (handlers def))) \<longrightarrow>
               (\<exists>obj. can r x c s = (Inr (Actions obj), s) \<and>
                  (\<forall>k \<in> set (Object_keys (heap s (handlers def))).
                     member obj k = Some (call_property (handlers def) k x)))))"
proof (intro conjI allI impI)
  fix action v
  assume a: "x = Str action \<and> c = Some v \<and> v \<noteq> Undefined"
  with assms show e: "can r x c s =
      (if has_property (heap s (handlers def)) action
       then (case call_property (handlers def) action v s of
               (out, s') \<Rightarrow> (map_sum id Value out, s'))
       else (Inl (unknown_action action r), s))"
    by (simp add: can_single_action can_unknown_action)
  show "fst (can r x c s) \<noteq> Inr (Actions obj)" for obj
    using e
    by (cases "call_property (handlers def) action v s";
        cases "fst (call_property (handlers def) action v s)") auto
  show "can r x c s =
      (case run h (handlers def) v (world s) of
         (out, w', ws) \<Rightarrow>
           (map_sum id Value out, s\<lparr>heap := fold write_own ws (heap s), world := w'\<rparr>))"
    if h: "map_of (own (heap s (handlers def))) action = Some h" for h
  proof -
    from h have "has_property (heap s (handlers def)) action"
      by (intro own_has_property map_of_own_key)
    with e call_property_own [OF h, of v] show ?thesis
      by (simp split: prod.splits)
  qed
next
  assume n: "\<not> ((\<exists>action. x = Str action) \<and> c \<noteq> None \<and> c \<noteq> Some Undefined)"
  with assms show "can r x c s = can r x None s"
    by (simp add: can_batch_shape)
  from assms show "can r x None s = (map_sum id Actions (can_batch def x s), s)"
    by (rule can_two_arguments)
  show "storable (Object_keys (heap s (handlers def))) \<Longrightarrow>
      \<exists>obj. can r x c s = (Inr (Actions obj), s) \<and>
        (\<forall>k \<in> set (Object_keys (heap s (handlers def))).
           member obj k = Some (call_property (handlers def) k x))"
  proof -
    assume "storable (Object_keys (heap s (handlers def)))"
    from can_batch_storable [OF this] obtain obj where b: "can_batch def x s = Inr obj"
      by blast
    with assms n member_can_batch [OF b] show ?thesis
      by (simp add: can_batch_shape)
  qed
  fix obj k f
  assume m: "can_batch def x s = Inr obj \<and> member obj k = Some f"
  with member_can_batch [of "def" x s obj k]
  show k: "k \<in> set (Object_keys (heap s (handlers def)))"
    and f: "f = call_property (handlers def) k x"
    by (auto split: if_splits)
  show "f s = (case run h (handlers def) x (world s) of
         (out, w', ws) \<Rightarrow> (out, s\<lparr>heap := fold write_own ws (heap s), world := w'\<rparr>))"
    if "map_of (own (heap s (handlers def))) k = Some h" for h
    using f call_property_own [OF that, of x] by simp
qed

text \<open>
  A third argument \<open>null\<close> selects the single-action shape; a two-argument call with an
  object, and a two-argument call with a string, select the batch shape.
\<close>

theorem can_shape_witness:
  "defs example_state ''post'' = Some post_def \<and>
   map_of (own (heap example_state (handlers post_def))) ''create'' = Some post_create \<and>
   storable (Object_keys (heap example_state (handlers post_def))) \<and>
   can ''post'' (Str ''create'') (Some Null) example_state
     = (Inr (Value (Bool False)), example_state\<lparr>world := 1\<rparr>) \<and>
   can ''post'' (Str ''create'') (Some (Obj [(''actor'', admin)])) example_state
     = (Inr (Value (Bool True)), example_state\<lparr>world := 1\<rparr>) \<and>
   (\<exists>obj. can ''post'' (Obj [(''actor'', admin)]) None example_state
            = (Inr (Actions obj), example_state) \<and>
          member obj ''create''
            = Some (call_property (handlers post_def) ''create'' (Obj [(''actor'', admin)]))) \<and>
   (\<exists>obj. can ''post'' (Str ''create'') None example_state
            = (Inr (Actions obj), example_state) \<and>
          member obj ''create''
            = Some (call_property (handlers post_def) ''create'' (Str ''create'')))"
proof -
  have h: "map_of (own (heap example_state (handlers post_def))) ''create'' = Some post_create"
    by (simp add: own_post_def)
  have k: "''create'' \<in> set (Object_keys (heap example_state (handlers post_def)))"
    by (simp add: Object_keys_def own_post_def)
  have v: "run post_create a Null 0 = (Inr (Bool False), 1, [])"
    "run post_create a (Obj [(''actor'', admin)]) 0 = (Inr (Bool True), 1, [])" for a
    by (simp_all add: post_create_def admin_def)
  from can_shape [OF example_post, of "Str ''create''" "Some Null"] h
  have 1: "can ''post'' (Str ''create'') (Some Null) example_state
      = (Inr (Value (Bool False)), example_state\<lparr>world := 1\<rparr>)"
    by (simp add: example_world v own_has_property [OF k] call_property_own [OF h])
  from can_shape [OF example_post, of "Str ''create''" "Some (Obj [(''actor'', admin)])"] h
  have 2: "can ''post'' (Str ''create'') (Some (Obj [(''actor'', admin)])) example_state
      = (Inr (Value (Bool True)), example_state\<lparr>world := 1\<rparr>)"
    by (simp add: example_world v own_has_property [OF k] call_property_own [OF h])
  note batch = can_shape [OF example_post, THEN conjunct2, rule_format,
      THEN conjunct2, THEN conjunct2, THEN conjunct2, rule_format]
  have "\<not> ((\<exists>action. Obj [(''actor'', admin)] = Str action) \<and>
      (None :: jsval option) \<noteq> None \<and> None \<noteq> Some Undefined)"
    by simp
  from batch [OF this storable_post] k
  have 3: "\<exists>obj. can ''post'' (Obj [(''actor'', admin)]) None example_state
            = (Inr (Actions obj), example_state) \<and>
          member obj ''create''
            = Some (call_property (handlers post_def) ''create'' (Obj [(''actor'', admin)]))"
    by blast
  have "\<not> ((\<exists>action. Str ''create'' = Str action) \<and>
      (None :: jsval option) \<noteq> None \<and> None \<noteq> Some Undefined)"
    by simp
  from batch [OF this storable_post] k
  have 4: "\<exists>obj. can ''post'' (Str ''create'') None example_state
            = (Inr (Actions obj), example_state) \<and>
          member obj ''create''
            = Some (call_property (handlers post_def) ''create'' (Str ''create''))"
    by blast
  from 1 2 3 4 show ?thesis
    by (simp only: example_post h storable_post simp_thms)
qed

text \<open>
  The claim as written fails: here the second argument is a string and a third argument
  is explicitly supplied, and the call takes the batch shape.
\<close>

theorem can_shape_counterexample:
  "typeof (Str ''create'') = ''string'' \<and> Some Undefined \<noteq> (None :: jsval option) \<and>
   can ''post'' (Str ''create'') (Some Undefined) example_state
     = (Inr (Actions
          \<lparr>members =
             [(''create'', call_property (handlers post_def) ''create'' (Str ''create'')),
              (''edit'', call_property (handlers post_def) ''edit'' (Str ''create'')),
              (''publish'', call_property (handlers post_def) ''publish'' (Str ''create''))],
           proto = None\<rparr>),
        example_state) \<and>
   can ''post'' (Str ''create'') (Some Undefined) example_state
     = can ''post'' (Str ''create'') None example_state"
  by (simp add: can_def example_post can_batch_def Object_keys_def own_post_def
      assign_def empty_object_def)

section \<open>Unknown resources\<close>

text \<open>
  C3. For a resource name \<open>r\<close> absent from the registry, \<open>get(r)\<close> throws, and
  \<open>can(r, x)\<close> and \<open>can(r, x, c)\<close> throw for every \<open>x\<close> and \<open>c\<close>, an error whose
  message is \<open>No permission definition for resource: \<close> followed by \<open>r\<close>.
\<close>

theorem unknown_resource_fails:
  assumes "defs s r = None"
  shows "get r s = (Inl (Error (''No permission definition for resource: '' @ r)), s) \<and>
         can r x c s = (Inl (Error (''No permission definition for resource: '' @ r)), s)"
  using assms by (simp add: get_def can_def unknown_resource_def)

theorem unknown_resource_fails_witness:
  "defs example_state ''missing'' = None \<and>
   get ''missing'' example_state
     = (Inl (Error ''No permission definition for resource: missing''), example_state) \<and>
   can ''missing'' (Obj [(''actor'', admin)]) None example_state
     = (Inl (Error ''No permission definition for resource: missing''), example_state) \<and>
   can ''missing'' (Str ''create'') (Some (Obj [(''actor'', admin)])) example_state
     = (Inl (Error ''No permission definition for resource: missing''), example_state)"
  using unknown_resource_fails [OF example_missing, of "Obj [(''actor'', admin)]" None]
        unknown_resource_fails [OF example_missing, of "Str ''create''"
          "Some (Obj [(''actor'', admin)])"]
  by (simp add: example_missing)

section \<open>Unknown actions\<close>

text \<open>
  C4. The three-argument \<open>can\<close> tests the action name with \<open>in\<close>, which also finds the
  properties that the handler mapping inherits. \<open>toString\<close> is not an action of the
  resource \<open>post\<close>, yet \<open>can("post", "toString", { actor })\<close> throws nothing: it calls
  the inherited function and returns its result.
\<close>

theorem inherited_name_is_dispatched:
  "''toString'' \<notin> set (Object_keys (heap example_state (handlers post_def))) \<and>
   defs example_state ''post'' = Some post_def \<and>
   can ''post'' (Str ''toString'') (Some (Obj [(''actor'', admin)])) example_state
     = (Inr (Value (Str ''[object Object]'')), example_state)"
  by (simp add: can_def example_post Object_keys_def own_post_def inherited_post_def
      has_property_def read_property_def call_property_def Object_prototype_def
      Object_prototype_toString_def)

section \<open>Two definitions of one resource\<close>

text \<open>
  C5. When the list given to \<open>createPermissions\<close> holds two definitions \<open>d1\<close> and \<open>d2\<close>
  of the same resource \<open>r\<close>, \<open>d2\<close> after \<open>d1\<close> and no definition of \<open>r\<close> after \<open>d2\<close>,
  the registry holds \<open>d2\<close> under \<open>r\<close>: \<open>get(r)\<close> returns the accessor built from \<open>d2\<close>,
  and every call of \<open>can\<close> on \<open>r\<close> gives the result, the world and the handler objects
  that it gives when \<open>d2\<close> is the only definition ever registered.
\<close>

theorem last_definition_wins:
  assumes "resource d1 = r" and "resource d2 = r" and "\<forall>d \<in> set post. resource d \<noteq> r"
    and "s = createPermissions (Some (pre @ d1 # mid @ d2 # post)) hp w"
  shows "defs s r = Some d2 \<and>
         get r s = (Inr (get_can d2), s) \<and>
         fst (can r x c s) = fst (can r x c (createPermissions (Some [d2]) hp w)) \<and>
         world (snd (can r x c s)) = world (snd (can r x c (createPermissions (Some [d2]) hp w))) \<and>
         heap (snd (can r x c s)) = heap (snd (can r x c (createPermissions (Some [d2]) hp w)))"
proof -
  have "pre @ d1 # mid @ d2 # post = (pre @ d1 # mid) @ d2 # post" by simp
  then have "defs s r =
      fold (\<lambda>def m. m(resource def \<mapsto> def)) post
        ((fold (\<lambda>def m. m(resource def \<mapsto> def)) (pre @ d1 # mid) Map.empty)
           (resource d2 \<mapsto> d2)) r"
    unfolding assms(4) createPermissions_def by (simp del: append_Cons append_assoc)
  with assms(2,3) have d: "defs s r = Some d2"
    by (simp add: fold_set_other)
  have "defs (createPermissions (Some [d2]) hp w) r = Some d2"
    using assms(2) by (simp add: createPermissions_def)
  moreover have "world s = world (createPermissions (Some [d2]) hp w)"
    and "heap s = heap (createPermissions (Some [d2]) hp w)"
    using assms(4) by (simp_all add: createPermissions_def)
  ultimately show ?thesis
    using d can_depends_on_entry [of s r "createPermissions (Some [d2]) hp w" x c]
    by (simp add: get_registered)
qed

text \<open>
  The example registry is built from two definitions of \<open>post\<close>; the earlier one denies
  \<open>create\<close> to everybody and has an action \<open>remove\<close>, the later one permits \<open>create\<close>
  to an administrator and has no action \<open>remove\<close>.
\<close>

theorem last_definition_wins_witness:
  "resource old_post_def = ''post'' \<and> resource post_def = ''post'' \<and>
   resource edge_def \<noteq> ''post'' \<and>
   example_state =
     createPermissions (Some ([] @ old_post_def # [comment_def] @ post_def # [edge_def]))
       example_heap 0 \<and>
   defs example_state ''post'' = Some post_def \<and>
   get ''post'' example_state = (Inr (get_can post_def), example_state) \<and>
   fst (can ''post'' (Str ''create'') (Some (Obj [(''actor'', admin)])) example_state)
     = Inr (Value (Bool True)) \<and>
   fst (can ''post'' (Str ''remove'') (Some (Obj [(''actor'', admin)])) example_state)
     = Inl (unknown_action ''remove'' ''post'')"
proof -
  have r: "resource old_post_def = ''post''" "resource post_def = ''post''"
    "\<forall>d \<in> set [edge_def]. resource d \<noteq> ''post''"
    by (simp_all add: example_defs)
  have e: "example_state =
      createPermissions (Some ([] @ old_post_def # [comment_def] @ post_def # [edge_def]))
        example_heap 0"
    by (simp add: example_state_def)
  have p: "defs (createPermissions (Some [post_def]) example_heap (0::nat)) ''post'' = Some post_def"
    by (simp add: createPermissions_def r)
  have o: "own (heap (createPermissions (Some [post_def]) example_heap (0::nat)) (handlers post_def))
      = [(''create'', post_create), (''edit'', post_edit), (''publish'', post_publish)]"
    "inherited (heap (createPermissions (Some [post_def]) example_heap (0::nat)) (handlers post_def))
      = Object_prototype example_natives"
    by (simp_all add: createPermissions_def example_heap_def object_literal_def post_def_def
        createPermissionDefinition_def)
  have c: "fst (can ''post'' (Str ''create'') (Some (Obj [(''actor'', admin)]))
             (createPermissions (Some [post_def]) example_heap 0)) = Inr (Value (Bool True))"
    by (simp add: can_def p o has_property_def read_property_def call_property_def
        post_create_def admin_def)
  have u: "fst (can ''post'' (Str ''remove'') (Some (Obj [(''actor'', admin)]))
             (createPermissions (Some [post_def]) example_heap 0))
           = Inl (unknown_action ''remove'' ''post'')"
    by (simp add: can_def p o has_property_def read_property_def Object_prototype_def)
  from last_definition_wins [OF r e, of "Str ''create''" "Some (Obj [(''actor'', admin)])"]
       last_definition_wins [OF r e, of "Str ''remove''" "Some (Obj [(''actor'', admin)])"]
       c u r e
  show ?thesis by simp
qed

section \<open>Handler results\<close>

text \<open>
  C6. Whatever value a handler returns is what each dispatch path returns. The
  three-argument \<open>can\<close> returns the value \<open>v\<close> that the handler returned, be it \<open>0\<close>,
  the empty string, \<open>null\<close>, \<open>undefined\<close>, a data object or an object taken by
  reference, and leaves the state as the handler left it. Every function that the
  two-argument \<open>can\<close> stores in its action object, and every method that
  \<open>get(r).can(actor)\<close> stores in its invoker, is the handler called on the context, with
  nothing done to its outcome; and both objects exist when the action names can all be
  stored.
\<close>

theorem handler_result_unchanged:
  assumes "defs s r = Some def" and "map_of (own (heap s (handlers def))) action = Some h"
  shows "(\<forall>c v w' ws. c \<noteq> Undefined \<and> run h (handlers def) c (world s) = (Inr v, w', ws) \<longrightarrow>
            can r (Str action) (Some c) s =
              (Inr (Value v), s\<lparr>heap := fold write_own ws (heap s), world := w'\<rparr>)) \<and>
         (\<forall>obj f. can r x None s = (Inr (Actions obj), s) \<and> member obj action = Some f \<longrightarrow>
            f s = (case run h (handlers def) x (world s) of
                     (out, w', ws) \<Rightarrow>
                       (out, s\<lparr>heap := fold write_own ws (heap s), world := w'\<rparr>))) \<and>
         (\<forall>accessor invoker m.
            get r s = (Inr accessor, s) \<and> accessor actor s = Inr invoker \<and>
            member invoker action = Some m \<longrightarrow>
            (\<forall>entity attributes.
               m entity attributes s =
                 (case run h (handlers def)
                         (Obj [(''actor'', actor), (''entity'', param entity),
                               (''attributes'', param attributes)]) (world s) of
                    (out, w', ws) \<Rightarrow>
                      (out, s\<lparr>heap := fold write_own ws (heap s), world := w'\<rparr>)))) \<and>
         (storable (Object_keys (heap s (handlers def))) \<longrightarrow>
            (\<exists>obj f. can r x None s = (Inr (Actions obj), s) \<and> member obj action = Some f) \<and>
            (\<exists>accessor invoker m.
               get r s = (Inr accessor, s) \<and> accessor actor s = Inr invoker \<and>
               member invoker action = Some m))"
proof (intro conjI allI impI)
  from assms(2) have k: "action \<in> set (Object_keys (heap s (handlers def)))"
    by (rule map_of_own_key)
  note call = call_property_own [OF assms(2)]
  show "can r (Str action) (Some c) s =
      (Inr (Value v), s\<lparr>heap := fold write_own ws (heap s), world := w'\<rparr>)"
    if "c \<noteq> Undefined \<and> run h (handlers def) c (world s) = (Inr v, w', ws)" for c v w' ws
    using assms(1) k that by (simp add: can_single_action own_has_property call)
  show "f s = (case run h (handlers def) x (world s) of
      (out, w', ws) \<Rightarrow> (out, s\<lparr>heap := fold write_own ws (heap s), world := w'\<rparr>))"
    if "can r x None s = (Inr (Actions obj), s) \<and> member obj action = Some f" for obj f
  proof -
    from that can_Actions [of r x None s obj s] assms(1)
    have b: "can_batch def x s = Inr obj" by auto
    from member_can_batch [OF b, of action] that k show ?thesis by (simp add: call)
  qed
  show "m entity attributes s =
      (case run h (handlers def)
              (Obj [(''actor'', actor), (''entity'', param entity),
                    (''attributes'', param attributes)]) (world s) of
         (out, w', ws) \<Rightarrow> (out, s\<lparr>heap := fold write_own ws (heap s), world := w'\<rparr>))"
    if "get r s = (Inr accessor, s) \<and> accessor actor s = Inr invoker \<and>
        member invoker action = Some m" for accessor invoker m entity attributes
  proof -
    from that assms(1) have i: "get_can def actor s = Inr invoker"
      by (auto simp add: get_registered)
    from member_get_can [OF i, of action] that k show ?thesis by (simp add: call)
  qed
  assume st: "storable (Object_keys (heap s (handlers def)))"
  from can_batch_storable [OF st] obtain obj where b: "can_batch def x s = Inr obj" by blast
  with assms(1) k member_can_batch [OF b, of action]
  show "\<exists>obj f. can r x None s = (Inr (Actions obj), s) \<and> member obj action = Some f"
    by (simp add: can_two_arguments)
  from get_can_storable [OF st] obtain invoker where i: "get_can def actor s = Inr invoker"
    by blast
  with assms(1) k member_get_can [OF i, of action]
  show "\<exists>accessor invoker m.
      get r s = (Inr accessor, s) \<and> accessor actor s = Inr invoker \<and>
      member invoker action = Some m"
    by (simp add: get_registered)
qed

text \<open>
  Handlers returning \<open>0\<close>, the empty string, \<open>null\<close>, \<open>undefined\<close>, a data object and
  an object taken by reference.
\<close>

theorem handler_result_unchanged_witness:
  "defs example_state ''edge-returns'' = Some edge_def \<and>
   can ''edge-returns'' (Str ''returnsZero'') (Some (Obj [(''actor'', admin)])) example_state
     = (Inr (Value (Num 0)), example_state\<lparr>world := 1\<rparr>) \<and>
   can ''edge-returns'' (Str ''returnsEmptyString'') (Some (Obj [(''actor'', admin)])) example_state
     = (Inr (Value (Str [])), example_state\<lparr>world := 1\<rparr>) \<and>
   can ''edge-returns'' (Str ''returnsNull'') (Some (Obj [(''actor'', admin)])) example_state
     = (Inr (Value Null), example_state\<lparr>world := 1\<rparr>) \<and>
   can ''edge-returns'' (Str ''returnsUndefined'') (Some (Obj [(''actor'', admin)])) example_state
     = (Inr (Value Undefined), example_state\<lparr>world := 1\<rparr>) \<and>
   can ''edge-returns'' (Str ''returnsObject'') (Some (Obj [(''actor'', admin)])) example_state
     = (Inr (Value (Obj [(''result'', Bool True)])), example_state\<lparr>world := 1\<rparr>) \<and>
   can ''edge-returns'' (Str ''returnsSame'') (Some (Obj [(''actor'', admin)])) example_state
     = (Inr (Value (Ref 7)), example_state\<lparr>world := 1\<rparr>) \<and>
   (\<exists>obj f. can ''edge-returns'' (Obj [(''actor'', admin)]) None example_state
              = (Inr (Actions obj), example_state) \<and>
            member obj ''returnsSame'' = Some f \<and>
            f example_state = (Inr (Ref 7), example_state\<lparr>world := 1\<rparr>)) \<and>
   (\<exists>accessor invoker m.
      get ''edge-returns'' example_state = (Inr accessor, example_state) \<and>
      accessor admin example_state = Inr invoker \<and>
      member invoker ''returnsZero'' = Some m \<and>
      m None None example_state = (Inr (Num 0), example_state\<lparr>world := 1\<rparr>))"
proof -
  have h: "map_of (own (heap example_state (handlers edge_def))) ''returnsZero'' = Some returnsZero"
    "map_of (own (heap example_state (handlers edge_def))) ''returnsEmptyString''
       = Some returnsEmptyString"
    "map_of (own (heap example_state (handlers edge_def))) ''returnsNull'' = Some returnsNull"
    "map_of (own (heap example_state (handlers edge_def))) ''returnsUndefined''
       = Some returnsUndefined"
    "map_of (own (heap example_state (handlers edge_def))) ''returnsObject'' = Some returnsObject"
    "map_of (own (heap example_state (handlers edge_def))) ''returnsSame'' = Some returnsSame"
    by (simp_all add: own_edge_def)
  note direct = handler_result_unchanged [OF example_edge, THEN conjunct1, rule_format,
      OF _ conjI, of _ _ "Obj [(''actor'', admin)]"]
  have 1: "can ''edge-returns'' (Str ''returnsZero'') (Some (Obj [(''actor'', admin)]))
      example_state = (Inr (Value (Num 0)), example_state\<lparr>world := 1\<rparr>)"
    using direct [OF h(1), of "Num 0" 1 "[]"] by (simp add: returnsZero_def example_world)
  have 2: "can ''edge-returns'' (Str ''returnsEmptyString'') (Some (Obj [(''actor'', admin)]))
      example_state = (Inr (Value (Str [])), example_state\<lparr>world := 1\<rparr>)"
    using direct [OF h(2), of "Str []" 1 "[]"] by (simp add: returnsEmptyString_def example_world)
  have 3: "can ''edge-returns'' (Str ''returnsNull'') (Some (Obj [(''actor'', admin)]))
      example_state = (Inr (Value Null), example_state\<lparr>world := 1\<rparr>)"
    using direct [OF h(3), of Null 1 "[]"] by (simp add: returnsNull_def example_world)
  have 4: "can ''edge-returns'' (Str ''returnsUndefined'') (Some (Obj [(''actor'', admin)]))
      example_state = (Inr (Value Undefined), example_state\<lparr>world := 1\<rparr>)"
    using direct [OF h(4), of Undefined 1 "[]"] by (simp add: returnsUndefined_def example_world)
  have 5: "can ''edge-returns'' (Str ''returnsObject'') (Some (Obj [(''actor'', admin)]))
      example_state = (Inr (Value (Obj [(''result'', Bool True)])), example_state\<lparr>world := 1\<rparr>)"
    using direct [OF h(5), of "Obj [(''result'', Bool True)]" 1 "[]"]
    by (simp add: returnsObject_def example_world)
  have 6: "can ''edge-returns'' (Str ''returnsSame'') (Some (Obj [(''actor'', admin)]))
      example_state = (Inr (Value (Ref 7)), example_state\<lparr>world := 1\<rparr>)"
    using direct [OF h(6), of "Ref 7" 1 "[]"] by (simp add: returnsSame_def example_world)
  from handler_result_unchanged [OF example_edge h(6),
      where x = "Obj [(''actor'', admin)]" and actor = admin, THEN conjunct2] storable_edge
  have 7: "\<exists>obj f. can ''edge-returns'' (Obj [(''actor'', admin)]) None example_state
              = (Inr (Actions obj), example_state) \<and>
            member obj ''returnsSame'' = Some f \<and>
            f example_state = (Inr (Ref 7), example_state\<lparr>world := 1\<rparr>)"
    by (auto simp add: returnsSame_def example_world)
  from handler_result_unchanged [OF example_edge h(1),
      where x = "Obj [(''actor'', admin)]" and actor = admin, THEN conjunct2] storable_edge
  have 8: "\<exists>accessor invoker m.
      get ''edge-returns'' example_state = (Inr accessor, example_state) \<and>
      accessor admin example_state = Inr invoker \<and>
      member invoker ''returnsZero'' = Some m \<and>
      m None None example_state = (Inr (Num 0), example_state\<lparr>world := 1\<rparr>)"
    by (auto simp add: returnsZero_def example_world)
  from 1 2 3 4 5 6 7 8 show ?thesis
    by (simp only: example_edge simp_thms)
qed

section \<open>The invoker of the builder path\<close>




section \<open>When the errors are raised\<close>

text \<open>
  C8. Both errors are thrown by the call itself, as its outcome \<open>Inl\<close>, never as a
  returned pending value, and with the state exactly as it was before the call: no
  handler has run, whatever the handlers of the registry are, asynchronous ones included.
\<close>

theorem errors_before_handlers:
  "(defs s r = None \<longrightarrow>
      get r s = (Inl (unknown_resource r), s) \<and> can r x c s = (Inl (unknown_resource r), s)) \<and>
   (defs s r = Some def \<and> \<not> has_property (heap s (handlers def)) action \<and> v \<noteq> Undefined \<longrightarrow>
      can r (Str action) (Some v) s = (Inl (unknown_action action r), s))"
  by (simp add: get_def can_def)

text \<open>
  \<open>post\<close> has the asynchronous handler \<open>publish\<close>, and every handler of the examples
  counts its invocations: after the failing calls the counter is still \<open>0\<close>.
\<close>

theorem errors_before_handlers_witness:
  "defs example_state ''missing'' = None \<and>
   defs example_state ''post'' = Some post_def \<and>
   \<not> has_property (heap example_state (handlers post_def)) ''nonexistent'' \<and>
   get ''missing'' example_state = (Inl (unknown_resource ''missing''), example_state) \<and>
   can ''missing'' (Str ''publish'') (Some (Obj [(''actor'', admin)])) example_state
     = (Inl (unknown_resource ''missing''), example_state) \<and>
   can ''post'' (Str ''nonexistent'') (Some (Obj [(''actor'', admin)])) example_state
     = (Inl (unknown_action ''nonexistent'' ''post''), example_state) \<and>
   world example_state = 0"
proof -
  have n: "\<not> has_property (heap example_state (handlers post_def)) ''nonexistent''"
    by (simp add: has_property_def read_property_def own_post_def inherited_post_def
        Object_prototype_def)
  from errors_before_handlers [of example_state "''missing''" "Str ''publish''"
         "Some (Obj [(''actor'', admin)])"]
       errors_before_handlers [of example_state "''post''" _ _ post_def "''nonexistent''"
         "Obj [(''actor'', admin)]"]
  show ?thesis
    by (simp add: example_missing example_post example_world n)
qed

section \<open>The registry after construction\<close>




section \<open>An explicit \<open>undefined\<close> as third argument\<close>




end
